theory Spec2Isabelle
  imports Main
begin

section \<open>JavaScript values\<close>

text \<open>
  The values the handlers build, read and send. A number is an integer or NaN (HTTP
  status codes, page numbers and ports are integers; fractions and the infinities are
  not represented, and an integer stands for a JavaScript number only up to the
  magnitude \<open>2^53\<close>, where doubles are exact). A string is the list of the bytes of
  its UTF-8 encoding: an accented letter of the source, or a white-space character
  outside ASCII, is the two or three bytes that encode it. An object is its list of
  own properties in insertion order.
\<close>

datatype jsval =
    JUndefined
  | JNull
  | JBool bool
  | JNum int
  | JNaN
  | JStr string
  | JArr "jsval list"
  | JObj "(string \<times> jsval) list"

text \<open>ToBoolean: what \<open>!v\<close>, \<open>v || w\<close> and \<open>if (v)\<close> test.\<close>

fun truthy :: "jsval \<Rightarrow> bool" where
  "truthy JUndefined = False"
| "truthy JNull = False"
| "truthy (JBool b) = b"
| "truthy (JNum n) = (n \<noteq> 0)"
| "truthy JNaN = False"
| "truthy (JStr s) = (s \<noteq> [])"
| "truthy (JArr xs) = True"
| "truthy (JObj kvs) = True"

definition js_or :: "jsval \<Rightarrow> jsval \<Rightarrow> jsval" where
  "js_or v w = (if truthy v then v else w)"

text \<open>
  A property that is a number or absent, and one that is a string or absent
  (\<open>None\<close> is \<open>undefined\<close>), with \<open>v || d\<close> for each: \<open>0\<close> and the empty string
  are falsy, as \<open>undefined\<close> is.
\<close>

definition num_or :: "int option \<Rightarrow> int \<Rightarrow> int" where
  "num_or v d = (case v of None \<Rightarrow> d | Some n \<Rightarrow> if n \<noteq> 0 then n else d)"

definition str_or :: "string option \<Rightarrow> string \<Rightarrow> string" where
  "str_or v d = (case v of None \<Rightarrow> d | Some s \<Rightarrow> if s \<noteq> [] then s else d)"

definition of_str :: "string option \<Rightarrow> jsval" where
  "of_str v = (case v of None \<Rightarrow> JUndefined | Some s \<Rightarrow> JStr s)"

text \<open>A value inside a template literal: \<open>undefined\<close> prints as the word.\<close>

definition template_str :: "string option \<Rightarrow> string" where
  "template_str v = (case v of None \<Rightarrow> ''undefined'' | Some s \<Rightarrow> s)"

text \<open>
  \<open>obj.k = v\<close> on an object literal: an existing property keeps its place, a new one
  goes last. \<open>has_key\<close> says that the object has the property at all; \<open>on_wire\<close>
  that the property appears in the JSON text of the object, which leaves out a
  property whose value is \<open>undefined\<close>.
\<close>

fun set_prop :: "string \<Rightarrow> jsval \<Rightarrow> (string \<times> jsval) list \<Rightarrow> (string \<times> jsval) list" where
  "set_prop k v [] = [(k, v)]"
| "set_prop k v (p # ps) = (if fst p = k then (k, v) # ps else p # set_prop k v ps)"

definition read_prop :: "(string \<times> jsval) list \<Rightarrow> string \<Rightarrow> jsval" where
  "read_prop kvs k = (case map_of kvs k of None \<Rightarrow> JUndefined | Some v \<Rightarrow> v)"

definition has_key :: "string \<Rightarrow> jsval \<Rightarrow> bool" where
  "has_key k v = (case v of JObj kvs \<Rightarrow> map_of kvs k \<noteq> None | _ \<Rightarrow> False)"

definition get_field :: "string \<Rightarrow> jsval \<Rightarrow> jsval" where
  "get_field k v = (case v of JObj kvs \<Rightarrow> read_prop kvs k | _ \<Rightarrow> JUndefined)"

definition on_wire :: "string \<Rightarrow> jsval \<Rightarrow> bool" where
  "on_wire k v = (has_key k v \<and> get_field k v \<noteq> JUndefined)"

definition a_acute :: string where
  "a_acute = [CHR 0xC3, CHR 0xA1]"

section \<open>Errors, requests and the response object\<close>

text \<open>
  An error object is the seven properties \<open>errorHandler\<close> reads from it; \<open>None\<close> (and
  \<open>JUndefined\<close> for \<open>details\<close>) is a property the object does not have. A thrown
  value is an \<open>Error\<close> instance or anything else (\<open>err instanceof Error\<close>).
\<close>

record js_error =
  err_name :: "string option"
  err_message :: "string option"
  err_stack :: "string option"
  err_statusCode :: "int option"
  err_status :: "int option"
  err_statusMessage :: "string option"
  err_details :: jsval

datatype thrown = ErrorInst js_error | NonError jsval

record request =
  req_method :: string
  req_path :: string
  req_url :: string
  req_originalUrl :: string
  req_ip :: "string option"
  req_userAgent :: "string option"
  req_params_id :: "string option"
  req_query :: "(string \<times> string) list"
  req_body :: jsval
  req_user :: jsval
  req_validators_match :: "jsval \<Rightarrow> bool"

text \<open>
  \<open>req_validators_match req b\<close> says that the conditional headers of the request
  (\<open>If-None-Match\<close>, \<open>If-Modified-Since\<close>) match the validators Express derives
  from the body \<open>b\<close>: the comparison behind \<open>req.fresh\<close>.

  A response is what a handler hands to \<open>res.status(c).json(b)\<close> and Express accepts:
  the status \<open>c\<close> and the JSON value \<open>b\<close>. What of it reaches the client is
  \<open>transmitted\<close>, below.
\<close>

record response =
  http_status :: int
  json_body :: jsval

record wire_response =
  wire_status :: int
  wire_body :: "jsval option"

text \<open>
  What a handler can change: the process (its environment, the clock read by
  \<open>new Date()\<close>, the console) and the response object of the request
  (\<open>res.headersSent\<close>, what was written, and the errors passed on with \<open>next(err)\<close>).
\<close>

record server_state =
  process_env :: "string \<rightharpoonup> string"
  clock :: "nat \<Rightarrow> string"
  ticks :: nat
  console :: "jsval list"
  res_headersSent :: bool
  res_sent :: "response list"
  res_forwarded :: "thrown list"

text \<open>\<open>new Date().toISOString()\<close>: the next reading of the clock.\<close>

definition now_iso :: "server_state \<Rightarrow> string \<times> server_state" where
  "now_iso st = (clock st (ticks st), st\<lparr>ticks := Suc (ticks st)\<rparr>)"

text \<open>
  \<open>new Error(msg)\<close>: name \<open>Error\<close>, the message, and a trace whose first line is
  \<open>Error: msg\<close> (the frames that follow it are the engine's and are left out).
\<close>

definition new_Error :: "string \<Rightarrow> js_error" where
  "new_Error msg =
     \<lparr>err_name = Some ''Error'', err_message = Some msg,
      err_stack = Some (''Error: '' @ msg), err_statusCode = None, err_status = None,
      err_statusMessage = None, err_details = JUndefined\<rparr>"

definition ERR_HTTP_HEADERS_SENT :: thrown where
  "ERR_HTTP_HEADERS_SENT =
     ErrorInst (new_Error ''Cannot set headers after they are sent to the client'')"

text \<open>
  The decimal text of an integer, for the message of the error below.
\<close>

fun decimal_nat :: "nat \<Rightarrow> string" where
  "decimal_nat n =
     (if n < 10 then [char_of (48 + n)]
      else decimal_nat (n div 10) @ [char_of (48 + n mod 10)])"

definition decimal :: "int \<Rightarrow> string" where
  "decimal n = (if n < 0 then ''-'' @ decimal_nat (nat (- n)) else decimal_nat (nat n))"

text \<open>
  Node writes the status line with the status coerced to a 32-bit integer
  (\<open>statusCode |= 0\<close>) and refuses one outside \<open>100..999\<close> with a RangeError.
\<close>

definition to_int32 :: "int \<Rightarrow> int" where
  "to_int32 n = (n + 2147483648) mod 4294967296 - 2147483648"

definition status_valid :: "int \<Rightarrow> bool" where
  "status_valid c = (100 \<le> to_int32 c \<and> to_int32 c \<le> 999)"

definition ERR_HTTP_INVALID_STATUS_CODE :: "int \<Rightarrow> thrown" where
  "ERR_HTTP_INVALID_STATUS_CODE c =
     ErrorInst
       \<lparr>err_name = Some ''RangeError'',
        err_message = Some (''Invalid status code: '' @ decimal c),
        err_stack = Some (''RangeError [ERR_HTTP_INVALID_STATUS_CODE]: Invalid status code: ''
                          @ decimal c),
        err_statusCode = None, err_status = None, err_statusMessage = None,
        err_details = JUndefined\<rparr>"

text \<open>
  \<open>res.status(c).json(b)\<close> in Express 4: on a response whose headers are already
  sent, setting the content type throws; with a status Node refuses, ending the
  response throws and nothing is written; otherwise the response is sent, once.
\<close>

definition send_json :: "int \<Rightarrow> jsval \<Rightarrow> server_state \<Rightarrow> thrown + server_state" where
  "send_json c b st =
     (if res_headersSent st then Inl ERR_HTTP_HEADERS_SENT
      else if \<not> status_valid c then Inl (ERR_HTTP_INVALID_STATUS_CODE c)
      else Inr (st\<lparr>res_headersSent := True,
                    res_sent := res_sent st @ [\<lparr>http_status = c, json_body = b\<rparr>]\<rparr>))"

text \<open>
  What reaches the client of a response that was sent (\<open>res.send\<close> of Express 4.18
  and the writer of Node beneath it). A GET or HEAD request whose validators match
  turns a 2xx response into 304. Express sends no body with 204, 205 and 304, Node
  none with a status line below 200 or of 204 or 304, and a HEAD request gets none.
  Otherwise the body is the JSON text of the value handed over.
\<close>

definition transmitted :: "request \<Rightarrow> response \<Rightarrow> wire_response" where
  "transmitted req r =
     (let fresh = ((req_method req = ''GET'' \<or> req_method req = ''HEAD'')
                   \<and> (200 \<le> http_status r \<and> http_status r < 300 \<or> http_status r = 304)
                   \<and> req_validators_match req (json_body r));
          statusCode = (if fresh then 304 else http_status r);
          stripped = (statusCode = 204 \<or> statusCode = 304 \<or> statusCode = 205);
          line = to_int32 statusCode;
          bodiless = (line < 200 \<or> line = 204 \<or> line = 304)
      in \<lparr>wire_status = line,
          wire_body = (if stripped \<or> bodiless \<or> req_method req = ''HEAD'' then None
                       else Some (json_body r))\<rparr>)"

section \<open>middleware/errorHandler.js\<close>

definition getErrorMessage :: "int \<Rightarrow> string" where
  "getErrorMessage statusCode =
     (let messages =
        [(400, ''Solicitud inv'' @ a_acute @ ''lida''),
         (401, ''No autorizado''),
         (403, ''Acceso prohibido''),
         (404, ''Recurso no encontrado''),
         (409, ''Conflicto de datos''),
         (422, ''Datos no procesables''),
         (500, ''Error interno del servidor''),
         (503, ''Servicio no disponible'')]
      in str_or (map_of messages statusCode) ''Error desconocido'')"

definition errorHandler :: "js_error \<Rightarrow> request \<Rightarrow> server_state \<Rightarrow> thrown + server_state" where
  "errorHandler err req st =
     (let (logged_at, st1) = now_iso st;
          st2 = st1\<lparr>console := console st1 @
            [JArr [JStr (''['' @ logged_at @ ''] '' @ req_method req @ '' '' @ req_path req
                         @ '' - Error: '' @ template_str (err_message err)),
                   JObj [(''stack'', of_str (err_stack err)),
                         (''statusCode'', JNum (num_or (err_statusCode err) (num_or (err_status err) 500))),
                         (''url'', JStr (req_url req)),
                         (''method'', JStr (req_method req)),
                         (''ip'', of_str (req_ip req)),
                         (''userAgent'', of_str (req_userAgent req))]]]\<rparr>;
          statusCode = num_or (err_statusCode err) (num_or (err_status err) 500);
          statusMessage = str_or (err_statusMessage err) (getErrorMessage statusCode);
          (timestamp, st3) = now_iso st2;
          error0 =
            [(''code'', JNum statusCode),
             (''message'', JStr (str_or (err_message err) statusMessage))]
            @ (if process_env st3 ''NODE_ENV'' = Some ''development''
               then [(''stack'', of_str (err_stack err))] else []);
          error1 =
            (if err_name err = Some ''ValidationError''
             then set_prop ''details'' (js_or (err_details err) (JArr []))
                    (set_prop ''message'' (JStr (''Datos de entrada inv'' @ a_acute @ ''lidos''))
                      (set_prop ''code'' (JNum 400) error0))
             else error0);
          error2 =
            (if err_name err = Some ''CastError''
             then set_prop ''message'' (JStr (''ID inv'' @ a_acute @ ''lido''))
                    (set_prop ''code'' (JNum 400) error1)
             else error1);
          error3 =
            (if err_name err = Some ''JsonWebTokenError''
             then set_prop ''message'' (JStr (''Token inv'' @ a_acute @ ''lido''))
                    (set_prop ''code'' (JNum 401) error2)
             else error2);
          error4 =
            (if err_name err = Some ''TokenExpiredError''
             then set_prop ''message'' (JStr ''Token expirado'')
                    (set_prop ''code'' (JNum 401) error3)
             else error3);
          errorResponse =
            JObj [(''success'', JBool False),
                  (''timestamp'', JStr timestamp),
                  (''path'', JStr (req_path req)),
                  (''method'', JStr (req_method req)),
                  (''error'', JObj error4)]
      in send_json statusCode errorResponse st3)"

definition globalErrorHandler :: "thrown \<Rightarrow> request \<Rightarrow> server_state \<Rightarrow> thrown + server_state" where
  "globalErrorHandler err req st =
     (if res_headersSent st then Inr (st\<lparr>res_forwarded := res_forwarded st @ [err]\<rparr>)
      else case err of
        ErrorInst e \<Rightarrow> errorHandler e req st
      | NonError v \<Rightarrow>
          errorHandler ((new_Error ''Error desconocido'')\<lparr>err_statusCode := Some 500\<rparr>) req st)"



text \<open>
  What a run handed to the response object and had accepted: nothing when the handler
  threw.
\<close>

definition responses :: "thrown + server_state \<Rightarrow> response list" where
  "responses r = (case r of Inl e \<Rightarrow> [] | Inr st \<Rightarrow> res_sent st)"

definition last_response :: "thrown + server_state \<Rightarrow> response option" where
  "last_response r = (if responses r = [] then None else Some (last (responses r)))"

text \<open>The parts of an error envelope: its \<open>error\<close> object and that object's properties.\<close>

definition envelope_error :: "response \<Rightarrow> jsval" where
  "envelope_error r = get_field ''error'' (json_body r)"

definition error_code :: "response \<Rightarrow> jsval" where
  "error_code r = get_field ''code'' (envelope_error r)"

definition error_message :: "response \<Rightarrow> jsval" where
  "error_message r = get_field ''message'' (envelope_error r)"

definition error_details :: "response \<Rightarrow> jsval" where
  "error_details r = get_field ''details'' (envelope_error r)"


section \<open>Numbers read from strings\<close>

text \<open>
  The white space \<open>parseInt\<close> and \<open>Number\<close> skip (StrWhiteSpaceChar), each as its
  UTF-8 bytes: tab, line feed, vertical tab, form feed, carriage return, space,
  U+00A0, U+1680, U+2000 to U+200A, U+2028, U+2029, U+202F, U+205F, U+3000 and U+FEFF.
\<close>

definition js_spaces :: "string list" where
  "js_spaces =
     [[CHR 0x09], [CHR 0x0A], [CHR 0x0B], [CHR 0x0C], [CHR 0x0D], [CHR 0x20],
      [CHR 0xC2, CHR 0xA0],
      [CHR 0xE1, CHR 0x9A, CHR 0x80],
      [CHR 0xE2, CHR 0x80, CHR 0x80], [CHR 0xE2, CHR 0x80, CHR 0x81],
      [CHR 0xE2, CHR 0x80, CHR 0x82], [CHR 0xE2, CHR 0x80, CHR 0x83],
      [CHR 0xE2, CHR 0x80, CHR 0x84], [CHR 0xE2, CHR 0x80, CHR 0x85],
      [CHR 0xE2, CHR 0x80, CHR 0x86], [CHR 0xE2, CHR 0x80, CHR 0x87],
      [CHR 0xE2, CHR 0x80, CHR 0x88], [CHR 0xE2, CHR 0x80, CHR 0x89],
      [CHR 0xE2, CHR 0x80, CHR 0x8A],
      [CHR 0xE2, CHR 0x80, CHR 0xA8], [CHR 0xE2, CHR 0x80, CHR 0xA9],
      [CHR 0xE2, CHR 0x80, CHR 0xAF],
      [CHR 0xE2, CHR 0x81, CHR 0x9F],
      [CHR 0xE3, CHR 0x80, CHR 0x80],
      [CHR 0xEF, CHR 0xBB, CHR 0xBF]]"

text \<open>
  \<open>strip_from ws k s\<close> drops \<open>k\<close> bytes and then, as long as the string starts with
  one of the byte sequences \<open>ws\<close>, that sequence. Leading white space is stripped
  with the encodings as they are, trailing white space on the reversed string with
  the encodings reversed.
\<close>

fun strip_from :: "string list \<Rightarrow> nat \<Rightarrow> string \<Rightarrow> string" where
  "strip_from ws k [] = []"
| "strip_from ws (Suc k) (c # cs) = strip_from ws k cs"
| "strip_from ws 0 (c # cs) =
     (case find (\<lambda>w. w \<noteq> [] \<and> take (length w) (c # cs) = w) ws of
        None \<Rightarrow> c # cs
      | Some w \<Rightarrow> strip_from ws (length w - 1) cs)"

definition trim_start :: "string \<Rightarrow> string" where
  "trim_start s = strip_from js_spaces 0 s"

definition trim_end :: "string \<Rightarrow> string" where
  "trim_end s = rev (strip_from (map rev js_spaces) 0 (rev s))"

definition digit_value :: "char \<Rightarrow> nat option" where
  "digit_value c =
     map_of
       [(CHR ''0'', 0), (CHR ''1'', 1), (CHR ''2'', 2), (CHR ''3'', 3), (CHR ''4'', 4),
        (CHR ''5'', 5), (CHR ''6'', 6), (CHR ''7'', 7), (CHR ''8'', 8), (CHR ''9'', 9),
        (CHR ''a'', 10), (CHR ''b'', 11), (CHR ''c'', 12), (CHR ''d'', 13), (CHR ''e'', 14),
        (CHR ''f'', 15), (CHR ''A'', 10), (CHR ''B'', 11), (CHR ''C'', 12), (CHR ''D'', 13),
        (CHR ''E'', 14), (CHR ''F'', 15)] c"

text \<open>
  The value of the longest prefix of digits of the radix; \<open>None\<close> while no digit has
  been read.
\<close>

fun parse_digits :: "nat \<Rightarrow> string \<Rightarrow> nat option \<Rightarrow> nat option" where
  "parse_digits R [] acc = acc"
| "parse_digits R (c # cs) acc =
     (case digit_value c of
        None \<Rightarrow> acc
      | Some d \<Rightarrow>
          if d < R
          then parse_digits R cs (Some (R * (case acc of None \<Rightarrow> 0 | Some a \<Rightarrow> a) + d))
          else acc)"

text \<open>
  \<open>parseInt(s)\<close> with no radix: leading white space, a sign, a \<open>0x\<close> prefix, then
  digits up to the first character that is none; \<open>None\<close> is NaN. (The result is
  exact here; the source's doubles round past \<open>2^53\<close>.)
\<close>

definition parseInt :: "string \<Rightarrow> int option" where
  "parseInt s =
     (let S = trim_start s;
          negative = (take 1 S = ''-'');
          S1 = (if take 1 S = ''-'' \<or> take 1 S = ''+'' then drop 1 S else S);
          hex = (take 2 S1 = ''0x'' \<or> take 2 S1 = ''0X'');
          Z = parse_digits (if hex then 16 else 10) (if hex then drop 2 S1 else S1) None
      in map_option (\<lambda>n. if negative then - int n else int n) Z)"

text \<open>
  \<open>isNaN(s)\<close> on a string is whether \<open>Number(s)\<close> is NaN: the string, trimmed, is
  neither empty nor a numeric literal (a signed decimal with optional fraction and
  exponent, \<open>Infinity\<close>, or an unsigned binary, octal or hexadecimal integer).
\<close>

definition trim :: "string \<Rightarrow> string" where
  "trim s = trim_end (trim_start s)"

definition is_decimal_digit :: "char \<Rightarrow> bool" where
  "is_decimal_digit c = (c \<in> set ''0123456789'')"

definition digits_among :: "string \<Rightarrow> string \<Rightarrow> bool" where
  "digits_among allowed s = (s \<noteq> [] \<and> list_all (\<lambda>c. c \<in> set allowed) s)"

definition exponent_part_opt :: "string \<Rightarrow> bool" where
  "exponent_part_opt s =
     (case s of
        [] \<Rightarrow> True
      | c # cs \<Rightarrow>
          (c = CHR ''e'' \<or> c = CHR ''E'')
          \<and> (if take 1 cs = ''+'' \<or> take 1 cs = ''-''
               then digits_among ''0123456789'' (drop 1 cs)
               else digits_among ''0123456789'' cs))"

definition unsigned_decimal_literal :: "string \<Rightarrow> bool" where
  "unsigned_decimal_literal s =
     (s = ''Infinity'' \<or>
      (let int_part = takeWhile is_decimal_digit s;
           after_int = dropWhile is_decimal_digit s
       in if take 1 after_int = ''.''
          then (let frac_part = takeWhile is_decimal_digit (drop 1 after_int);
                    after_frac = dropWhile is_decimal_digit (drop 1 after_int)
                in (int_part \<noteq> [] \<or> frac_part \<noteq> []) \<and> exponent_part_opt after_frac)
          else int_part \<noteq> [] \<and> exponent_part_opt after_int))"

definition decimal_literal :: "string \<Rightarrow> bool" where
  "decimal_literal s =
     (if take 1 s = ''+'' \<or> take 1 s = ''-'' then unsigned_decimal_literal (drop 1 s)
      else unsigned_decimal_literal s)"

definition non_decimal_integer_literal :: "string \<Rightarrow> bool" where
  "non_decimal_integer_literal s =
     ((take 2 s = ''0b'' \<or> take 2 s = ''0B'') \<and> digits_among ''01'' (drop 2 s)
      \<or> (take 2 s = ''0o'' \<or> take 2 s = ''0O'') \<and> digits_among ''01234567'' (drop 2 s)
      \<or> (take 2 s = ''0x'' \<or> take 2 s = ''0X'')
          \<and> digits_among ''0123456789abcdefABCDEF'' (drop 2 s))"

definition Number_is_NaN :: "string \<Rightarrow> bool" where
  "Number_is_NaN s =
     (let t = trim s in \<not> (t = [] \<or> decimal_literal t \<or> non_decimal_integer_literal t))"

text \<open>\<open>isNaN(v)\<close> for a path parameter: a string, or \<open>undefined\<close> (whose number is NaN).\<close>

definition isNaN :: "string option \<Rightarrow> bool" where
  "isNaN v = (case v of None \<Rightarrow> True | Some s \<Rightarrow> Number_is_NaN s)"

definition truthy_str :: "string option \<Rightarrow> bool" where
  "truthy_str v = (case v of None \<Rightarrow> False | Some s \<Rightarrow> s \<noteq> [])"

section \<open>The configuration module\<close>

record app_config =
  cfg_env :: string
  cfg_port :: int
  cfg_host :: string
  cfg_databaseUrl :: "string option"
  cfg_jwtSecret :: "string option"
  cfg_jwtExpiration :: int
  cfg_redisUrl :: "string option"
  cfg_logLevel :: string
  cfg_enableCors :: bool
  cfg_uploadPath :: string
  cfg_maxFileSize :: int

text \<open>
  The file system as \<open>getConfig\<close> meets it: whether \<open>fs.access\<close> and \<open>fs.mkdir\<close>
  of a path resolve (\<open>True\<close>) or reject.
\<close>

record filesystem =
  fs_access :: "string \<Rightarrow> bool"
  fs_mkdir :: "string \<Rightarrow> bool"

text \<open>A run of \<open>getConfig\<close>: the lines it logged, the directories it created, its result.\<close>

record config_run =
  cfg_logged :: "(string \<times> thrown) list"
  cfg_created :: "string list"
  cfg_result :: "thrown + app_config"

fun join :: "string \<Rightarrow> string list \<Rightarrow> string" where
  "join sep [] = []"
| "join sep [x] = x"
| "join sep (x # y # ys) = x @ sep @ join sep (y # ys)"

definition requiredVars :: "string list" where
  "requiredVars = [''NODE_ENV'', ''PORT'', ''DATABASE_URL'', ''JWT_SECRET'']"

definition validateEnv :: "(string \<rightharpoonup> string) \<Rightarrow> thrown + unit" where
  "validateEnv env =
     (let missingVars = filter (\<lambda>varName. \<not> truthy_str (env varName)) requiredVars
      in if length missingVars > 0
         then Inl (ErrorInst (new_Error
                (''Missing required environment variables: '' @ join '', '' missingVars)))
         else Inr ())"

definition fs_error :: "string \<Rightarrow> string \<Rightarrow> thrown" where
  "fs_error syscall p = ErrorInst (new_Error (syscall @ '' failed: '' @ p))"

definition getConfig :: "filesystem \<Rightarrow> (string \<rightharpoonup> string) \<Rightarrow> config_run" where
  "getConfig fs env =
     (let failed = (\<lambda>error created.
            \<lparr>cfg_logged = [(''Error loading configuration:'', error)], cfg_created = created,
             cfg_result = Inl (ErrorInst (new_Error ''Failed to load application configuration''))\<rparr>)
      in case validateEnv env of
        Inl error \<Rightarrow> failed error []
      | Inr _ \<Rightarrow>
          (let config =
             \<lparr>cfg_env = str_or (env ''NODE_ENV'') ''development'',
              cfg_port = num_or (parseInt (template_str (env ''PORT''))) 3000,
              cfg_host = str_or (env ''HOST'') ''localhost'',
              cfg_databaseUrl = env ''DATABASE_URL'',
              cfg_jwtSecret = env ''JWT_SECRET'',
              cfg_jwtExpiration = num_or (parseInt (template_str (env ''JWT_EXPIRATION''))) 3600,
              cfg_redisUrl = (if truthy_str (env ''REDIS_URL'') then env ''REDIS_URL'' else None),
              cfg_logLevel = str_or (env ''LOG_LEVEL'') ''info'',
              cfg_enableCors = (env ''ENABLE_CORS'' = Some ''true''),
              cfg_uploadPath = str_or (env ''UPLOAD_PATH'') ''./uploads'',
              cfg_maxFileSize = num_or (parseInt (template_str (env ''MAX_FILE_SIZE''))) 10485760\<rparr>
           in if cfg_uploadPath config \<noteq> []
              then if fs_access fs (cfg_uploadPath config)
                   then \<lparr>cfg_logged = [], cfg_created = [], cfg_result = Inr config\<rparr>
                   else if fs_mkdir fs (cfg_uploadPath config)
                        then \<lparr>cfg_logged = [], cfg_created = [cfg_uploadPath config],
                              cfg_result = Inr config\<rparr>
                        else failed (fs_error ''mkdir'' (cfg_uploadPath config)) []
              else \<lparr>cfg_logged = [], cfg_created = [], cfg_result = Inr config\<rparr>))"

section \<open>The item controller\<close>

text \<open>
  The data-access functions (\<open>getAllItems\<close>, \<open>getItemById\<close>, ...) are not part of the
  repository: a handler takes the one it awaits as a function from the argument list
  to the value the promise resolves to (\<open>Inr\<close>) or rejects with (\<open>Inl\<close>).
  \<open>validationResult(req)\<close> of express-validator is taken the same way: the array of
  failures, or what it throws.
\<close>

type_synonym service = "jsval list \<Rightarrow> thrown + jsval"

type_synonym validator = "request \<Rightarrow> thrown + jsval list"

datatype outcome = Responded response | CalledNext | Rejected thrown

text \<open>
  A run of a route handler on a fresh response object: the argument lists it passed to
  the data-access function, what it logged, and how it ended (a response, \<open>next()\<close>,
  or an exception that leaves the handler with nothing written).
\<close>

record handler_run =
  run_calls :: "jsval list list"
  run_logged :: "(string \<times> thrown) list"
  run_outcome :: outcome

definition type_error :: "string \<Rightarrow> thrown" where
  "type_error msg =
     ErrorInst
       \<lparr>err_name = Some ''TypeError'', err_message = Some msg,
        err_stack = Some (''TypeError: '' @ msg), err_statusCode = None, err_status = None,
        err_statusMessage = None, err_details = JUndefined\<rparr>"

text \<open>
  \<open>v.k\<close> for the property names the handlers read (\<open>items\<close>, \<open>pagination\<close>,
  \<open>message\<close>, \<open>name\<close>, \<open>description\<close>, \<open>category\<close>, \<open>id\<close>): a TypeError on
  \<open>undefined\<close> and \<open>null\<close>, the own property of an object, \<open>undefined\<close> on any
  other value.
\<close>

definition get_member :: "jsval \<Rightarrow> string \<Rightarrow> thrown + jsval" where
  "get_member v k =
     (case v of
        JUndefined \<Rightarrow> Inl (type_error (''Cannot read properties of undefined (reading '' @ k @ '')''))
      | JNull \<Rightarrow> Inl (type_error (''Cannot read properties of null (reading '' @ k @ '')''))
      | JObj kvs \<Rightarrow> Inr (read_prop kvs k)
      | _ \<Rightarrow> Inr JUndefined)"

definition thrown_message :: "thrown \<Rightarrow> thrown + jsval" where
  "thrown_message error =
     (case error of
        ErrorInst e \<Rightarrow> Inr (of_str (err_message e))
      | NonError v \<Rightarrow> get_member v ''message'')"

text \<open>
  The \<open>catch\<close> block the five handlers share but for the label they log: it answers
  500 with the message of what was caught; reading that message throws when the
  caught value is \<open>undefined\<close> or \<open>null\<close>.
\<close>

definition caught :: "string \<Rightarrow> jsval list list \<Rightarrow> thrown \<Rightarrow> handler_run" where
  "caught label calls error =
     (case thrown_message error of
        Inl e \<Rightarrow> \<lparr>run_calls = calls, run_logged = [(label, error)], run_outcome = Rejected e\<rparr>
      | Inr m \<Rightarrow>
          \<lparr>run_calls = calls, run_logged = [(label, error)],
           run_outcome = Responded
             \<lparr>http_status = 500,
              json_body = JObj [(''success'', JBool False),
                                (''message'', JStr ''Internal server error''),
                                (''error'', m)]\<rparr>\<rparr>)"

definition replied :: "jsval list list \<Rightarrow> int \<Rightarrow> (string \<times> jsval) list \<Rightarrow> handler_run" where
  "replied calls c b =
     \<lparr>run_calls = calls, run_logged = [],
      run_outcome = Responded \<lparr>http_status = c, json_body = JObj b\<rparr>\<rparr>"

definition num_of :: "int option \<Rightarrow> jsval" where
  "num_of v = (case v of None \<Rightarrow> JNaN | Some n \<Rightarrow> JNum n)"

definition getAllItemsHandler :: "service \<Rightarrow> request \<Rightarrow> handler_run" where
  "getAllItemsHandler getAllItems req =
     (let label = ''Error in getAllItemsHandler:'';
          page = (case map_of (req_query req) ''page'' of None \<Rightarrow> Some 1 | Some s \<Rightarrow> parseInt s);
          limit = (case map_of (req_query req) ''limit'' of None \<Rightarrow> Some 10 | Some s \<Rightarrow> parseInt s);
          filters = filter (\<lambda>(k, v). k \<noteq> ''page'' \<and> k \<noteq> ''limit'') (req_query req);
          args = [JObj [(''page'', num_of page), (''limit'', num_of limit),
                        (''filters'', JObj (map (\<lambda>(k, v). (k, JStr v)) filters))]]
      in case getAllItems args of
        Inl error \<Rightarrow> caught label [args] error
      | Inr result \<Rightarrow>
          (case get_member result ''items'' of
             Inl error \<Rightarrow> caught label [args] error
           | Inr items \<Rightarrow>
               (case get_member result ''pagination'' of
                  Inl error \<Rightarrow> caught label [args] error
                | Inr pagination \<Rightarrow>
                    replied [args] 200
                      [(''success'', JBool True), (''data'', items),
                       (''pagination'', pagination),
                       (''message'', JStr ''Items retrieved successfully'')])))"

definition getItemByIdHandler :: "service \<Rightarrow> request \<Rightarrow> handler_run" where
  "getItemByIdHandler getItemById req =
     (let label = ''Error in getItemByIdHandler:'';
          id = req_params_id req
      in if \<not> truthy_str id \<or> isNaN id
         then replied [] 400
                [(''success'', JBool False), (''message'', JStr ''Invalid ID parameter'')]
         else case getItemById [of_str id] of
           Inl error \<Rightarrow> caught label [[of_str id]] error
         | Inr item \<Rightarrow>
             if \<not> truthy item
             then replied [[of_str id]] 404
                    [(''success'', JBool False), (''message'', JStr ''Item not found'')]
             else replied [[of_str id]] 200
                    [(''success'', JBool True), (''data'', item),
                     (''message'', JStr ''Item retrieved successfully'')])"

text \<open>\<open>req.user?.id || null\<close>.\<close>

definition user_id_or_null :: "jsval \<Rightarrow> jsval" where
  "user_id_or_null u =
     js_or (if u = JUndefined \<or> u = JNull then JUndefined else get_field ''id'' u) JNull"

definition createItemHandler :: "validator \<Rightarrow> service \<Rightarrow> request \<Rightarrow> handler_run" where
  "createItemHandler validationResult createItem req =
     (let label = ''Error in createItemHandler:''
      in case validationResult req of
        Inl error \<Rightarrow> caught label [] error
      | Inr errors \<Rightarrow>
          if errors \<noteq> []
          then replied [] 400
                 [(''success'', JBool False), (''message'', JStr ''Validation failed''),
                  (''errors'', JArr errors)]
          else case get_member (req_body req) ''name'' of
            Inl error \<Rightarrow> caught label [] error
          | Inr name \<Rightarrow>
              (let args = [JObj [(''name'', name),
                                 (''description'', get_field ''description'' (req_body req)),
                                 (''category'', get_field ''category'' (req_body req)),
                                 (''createdBy'', user_id_or_null (req_user req))]]
               in case createItem args of
                 Inl error \<Rightarrow> caught label [args] error
               | Inr newItem \<Rightarrow>
                   replied [args] 201
                     [(''success'', JBool True), (''data'', newItem),
                      (''message'', JStr ''Item created successfully'')]))"

definition updateItemHandler :: "validator \<Rightarrow> service \<Rightarrow> request \<Rightarrow> handler_run" where
  "updateItemHandler validationResult updateItem req =
     (let label = ''Error in updateItemHandler:'';
          id = req_params_id req
      in if \<not> truthy_str id \<or> isNaN id
         then replied [] 400
                [(''success'', JBool False), (''message'', JStr ''Invalid ID parameter'')]
         else case validationResult req of
           Inl error \<Rightarrow> caught label [] error
         | Inr errors \<Rightarrow>
             if errors \<noteq> []
             then replied [] 400
                    [(''success'', JBool False), (''message'', JStr ''Validation failed''),
                     (''errors'', JArr errors)]
             else case get_member (req_body req) ''name'' of
               Inl error \<Rightarrow> caught label [] error
             | Inr name \<Rightarrow>
                 (let args = [of_str id,
                              JObj [(''name'', name),
                                    (''description'', get_field ''description'' (req_body req)),
                                    (''category'', get_field ''category'' (req_body req)),
                                    (''updatedBy'', user_id_or_null (req_user req))]]
                  in case updateItem args of
                    Inl error \<Rightarrow> caught label [args] error
                  | Inr updatedItem \<Rightarrow>
                      if \<not> truthy updatedItem
                      then replied [args] 404
                             [(''success'', JBool False), (''message'', JStr ''Item not found'')]
                      else replied [args] 200
                             [(''success'', JBool True), (''data'', updatedItem),
                              (''message'', JStr ''Item updated successfully'')]))"

definition deleteItemHandler :: "service \<Rightarrow> request \<Rightarrow> handler_run" where
  "deleteItemHandler deleteItem req =
     (let label = ''Error in deleteItemHandler:'';
          id = req_params_id req
      in if \<not> truthy_str id \<or> isNaN id
         then replied [] 400
                [(''success'', JBool False), (''message'', JStr ''Invalid ID parameter'')]
         else case deleteItem [of_str id] of
           Inl error \<Rightarrow> caught label [[of_str id]] error
         | Inr deleted \<Rightarrow>
             if \<not> truthy deleted
             then replied [[of_str id]] 404
                    [(''success'', JBool False), (''message'', JStr ''Item not found'')]
             else replied [[of_str id]] 200
                    [(''success'', JBool True),
                     (''message'', JStr ''Item deleted successfully'')])"

section \<open>The validation middleware\<close>

definition validateRequest :: "validator \<Rightarrow> request \<Rightarrow> handler_run" where
  "validateRequest validationResult req =
     (case validationResult req of
        Inl error \<Rightarrow>
          (case thrown_message error of
             Inl e \<Rightarrow> \<lparr>run_calls = [], run_logged = [], run_outcome = Rejected e\<rparr>
           | Inr m \<Rightarrow>
               replied [] 500
                 [(''success'', JBool False),
                  (''message'', JStr ''Internal server error during validation''),
                  (''error'', m)])
      | Inr errors \<Rightarrow>
          if errors \<noteq> []
          then replied [] 400
                 [(''success'', JBool False), (''message'', JStr ''Validation failed''),
                  (''errors'', JArr errors)]
          else \<lparr>run_calls = [], run_logged = [], run_outcome = CalledNext\<rparr>)"

section \<open>The routes of the server and of routes/index.js\<close>

text \<open>
  Each takes what it reads from the process: the clock's reading and, for the server's
  health route, the uptime in seconds.
\<close>

definition server_health_route :: "string \<Rightarrow> int \<Rightarrow> response" where
  "server_health_route stamp uptime =
     \<lparr>http_status = 200,
      json_body = JObj [(''status'', JStr ''OK''), (''timestamp'', JStr stamp),
                        (''uptime'', JNum uptime)]\<rparr>"

definition server_not_found_route :: "request \<Rightarrow> response" where
  "server_not_found_route req =
     \<lparr>http_status = 404,
      json_body = JObj [(''error'', JStr ''Ruta no encontrada''),
                        (''path'', JStr (req_originalUrl req))]\<rparr>"

definition router_root :: "string \<Rightarrow> response" where
  "router_root stamp =
     \<lparr>http_status = 200,
      json_body = JObj [(''message'', JStr ''Bienvenido a la API''), (''timestamp'', JStr stamp)]\<rparr>"

definition router_health :: "string \<Rightarrow> response" where
  "router_health stamp =
     \<lparr>http_status = 200,
      json_body = JObj [(''status'', JStr ''OK''), (''timestamp'', JStr stamp)]\<rparr>"

definition router_error :: response where
  "router_error =
     \<lparr>http_status = 500,
      json_body = JObj [(''error'', JStr ''Error de prueba''),
                        (''message'', of_str (err_message (new_Error ''Error de prueba intencional'')))]\<rparr>"

section \<open>The response bodies of the program\<close>

text \<open>
  The bodies that reach a client: those of the responses of the item controller, the
  validation middleware and the two error handlers, and those of the routes that
  answer with an object literal of their own. A response that reaches the client
  without a body contributes none.
\<close>

inductive enveloped_body :: "jsval \<Rightarrow> bool" where
  from_getAllItems:
    "run_outcome (getAllItemsHandler svc req) = Responded r
       \<Longrightarrow> wire_body (transmitted req r) = Some b \<Longrightarrow> enveloped_body b"
| from_getItemById:
    "run_outcome (getItemByIdHandler svc req) = Responded r
       \<Longrightarrow> wire_body (transmitted req r) = Some b \<Longrightarrow> enveloped_body b"
| from_createItem:
    "run_outcome (createItemHandler vr svc req) = Responded r
       \<Longrightarrow> wire_body (transmitted req r) = Some b \<Longrightarrow> enveloped_body b"
| from_updateItem:
    "run_outcome (updateItemHandler vr svc req) = Responded r
       \<Longrightarrow> wire_body (transmitted req r) = Some b \<Longrightarrow> enveloped_body b"
| from_deleteItem:
    "run_outcome (deleteItemHandler svc req) = Responded r
       \<Longrightarrow> wire_body (transmitted req r) = Some b \<Longrightarrow> enveloped_body b"
| from_validateRequest:
    "run_outcome (validateRequest vr req) = Responded r
       \<Longrightarrow> wire_body (transmitted req r) = Some b \<Longrightarrow> enveloped_body b"
| from_errorHandler:
    "\<not> res_headersSent st \<Longrightarrow> last_response (errorHandler err req st) = Some r
       \<Longrightarrow> wire_body (transmitted req r) = Some b \<Longrightarrow> enveloped_body b"
| from_globalErrorHandler:
    "\<not> res_headersSent st \<Longrightarrow> last_response (globalErrorHandler thr req st) = Some r
       \<Longrightarrow> wire_body (transmitted req r) = Some b \<Longrightarrow> enveloped_body b"

inductive bare_body :: "jsval \<Rightarrow> bool" where
  from_server_health:
    "wire_body (transmitted req (server_health_route stamp uptime)) = Some b \<Longrightarrow> bare_body b"
| from_server_not_found:
    "wire_body (transmitted req (server_not_found_route req)) = Some b \<Longrightarrow> bare_body b"
| from_router_root:
    "wire_body (transmitted req (router_root stamp)) = Some b \<Longrightarrow> bare_body b"
| from_router_health:
    "wire_body (transmitted req (router_health stamp)) = Some b \<Longrightarrow> bare_body b"
| from_router_error:
    "wire_body (transmitted req router_error) = Some b \<Longrightarrow> bare_body b"

definition program_body :: "jsval \<Rightarrow> bool" where
  "program_body b = (enveloped_body b \<or> bare_body b)"

text \<open>
  The envelope invariant of a body: \<open>success\<close> is there and a boolean, and \<open>data\<close>
  and \<open>error\<close> are not both there.
\<close>

definition envelope_ok :: "jsval \<Rightarrow> bool" where
  "envelope_ok b =
     ((case get_field ''success'' b of JBool s \<Rightarrow> True | _ \<Rightarrow> False)
      \<and> \<not> (has_key ''data'' b \<and> has_key ''error'' b))"

section \<open>The readings the claims are compared with\<close>

text \<open>
  The names for which \<open>errorHandler\<close> has an override, and an identifier that is
  numeric in the plain sense of the word: a non-empty string of decimal digits. The
  guard of the handlers is \<open>isNaN\<close>, defined above; \<open>numeric_id\<close> is used only to
  say what a blank identifier is not.
\<close>

definition recognized_names :: "string list" where
  "recognized_names = [''ValidationError'', ''CastError'', ''JsonWebTokenError'', ''TokenExpiredError'']"

definition numeric_id :: "string \<Rightarrow> bool" where
  "numeric_id s = digits_among ''0123456789'' s"

section \<open>Sample inputs\<close>

definition sample_req :: request where
  "sample_req =
     \<lparr>req_method = ''GET'', req_path = ''/api/items/1'', req_url = ''/api/items/1'',
      req_originalUrl = ''/api/items/1'', req_ip = Some ''127.0.0.1'',
      req_userAgent = Some ''curl/8.0'', req_params_id = Some ''1'', req_query = [],
      req_body = JUndefined, req_user = JUndefined,
      req_validators_match = (\<lambda>b. False)\<rparr>"

definition state_in_mode :: "string \<Rightarrow> server_state" where
  "state_in_mode mode =
     \<lparr>process_env = [''NODE_ENV'' \<mapsto> mode], clock = (\<lambda>n. ''2024-01-01T00:00:00.000Z''),
      ticks = 0, console = [], res_headersSent = False, res_sent = [], res_forwarded = []\<rparr>"

definition validation_error :: js_error where
  "validation_error =
     \<lparr>err_name = Some ''ValidationError'', err_message = Some ''Item validation failed'',
      err_stack = Some ''ValidationError: Item validation failed'', err_statusCode = None,
      err_status = None, err_statusMessage = None,
      err_details =
        JArr [JObj [(''field'', JStr ''name''), (''message'', JStr ''name is required'')]]\<rparr>"

definition expired_token_error :: js_error where
  "expired_token_error =
     \<lparr>err_name = Some ''TokenExpiredError'', err_message = Some ''jwt expired'',
      err_stack = Some ''TokenExpiredError: jwt expired'', err_statusCode = None,
      err_status = None, err_statusMessage = None, err_details = JUndefined\<rparr>"

definition bare_error :: js_error where
  "bare_error =
     \<lparr>err_name = Some ''Error'', err_message = Some [], err_stack = Some ''Error'',
      err_statusCode = None, err_status = None, err_statusMessage = None,
      err_details = JUndefined\<rparr>"

definition traced_error :: js_error where
  "traced_error =
     \<lparr>err_name = Some ''Error'', err_message = Some ''boom'',
      err_stack = Some ''Error: boom at handler (app.js:1:1)'', err_statusCode = None,
      err_status = None, err_statusMessage = None, err_details = JUndefined\<rparr>"

definition found_item :: service where
  "found_item args = Inr (JObj [(''id'', JNum 7), (''name'', JStr ''lamp'')])"

definition full_env :: "string \<rightharpoonup> string" where
  "full_env =
     [''NODE_ENV'' \<mapsto> ''production'', ''PORT'' \<mapsto> ''8080'',
      ''DATABASE_URL'' \<mapsto> ''mongodb://db/app'', ''JWT_SECRET'' \<mapsto> ''s3cret'']"

definition readonly_fs :: filesystem where
  "readonly_fs = \<lparr>fs_access = (\<lambda>p. False), fs_mkdir = (\<lambda>p. False)\<rparr>"

definition answered_state :: server_state where
  "answered_state =
     (state_in_mode ''production'')
       \<lparr>res_headersSent := True,
        res_sent := [\<lparr>http_status = 200, json_body = JObj [(''success'', JBool True)]\<rparr>]\<rparr>"


section \<open>Facts about objects and about the response of the error handler\<close>

lemma map_of_set_prop:
  "map_of (set_prop k v ps) k' = (if k' = k then Some v else map_of ps k')"
  by (induction ps) auto

lemma has_key_JObj: "has_key k (JObj kvs) = (map_of kvs k \<noteq> None)"
  by (simp add: has_key_def)

lemma get_field_JObj:
  "get_field k (JObj kvs) = (case map_of kvs k of None \<Rightarrow> JUndefined | Some v \<Rightarrow> v)"
  by (simp add: get_field_def read_prop_def)

lemma status_valid_500: "status_valid 500"
  by (simp add: status_valid_def to_int32_def)

lemmas run_defs =
  errorHandler_def send_json_def now_iso_def responses_def last_response_def
  envelope_error_def error_code_def error_message_def error_details_def
  get_field_JObj has_key_JObj map_of_set_prop

lemmas sample_defs =
  sample_req_def state_in_mode_def validation_error_def expired_token_error_def
  bare_error_def traced_error_def

lemma getErrorMessage_500: "getErrorMessage 500 = ''Error interno del servidor''"
  by (simp add: getErrorMessage_def str_or_def)

lemma getErrorMessage_unknown:
  "n \<notin> {400, 401, 403, 404, 409, 422, 500, 503} \<Longrightarrow> getErrorMessage n = ''Error desconocido''"
  by (simp add: getErrorMessage_def str_or_def)

text \<open>When the handler throws: the headers are already sent, or Node refuses the status.\<close>

lemma errorHandler_throws_sent:
  "res_headersSent st \<Longrightarrow> errorHandler err req st = Inl ERR_HTTP_HEADERS_SENT"
  by (simp add: errorHandler_def send_json_def now_iso_def Let_def split del: if_split)

lemma errorHandler_throws_invalid:
  assumes "\<not> res_headersSent st"
    and "\<not> status_valid (num_or (err_statusCode err) (num_or (err_status err) 500))"
  shows "errorHandler err req st
     = Inl (ERR_HTTP_INVALID_STATUS_CODE (num_or (err_statusCode err) (num_or (err_status err) 500)))"
  using assms
  by (simp add: errorHandler_def send_json_def now_iso_def Let_def split del: if_split)


lemma errorHandler_writes_iff:
  "(\<exists>r. last_response (errorHandler err req st) = Some r)
     \<longleftrightarrow> \<not> res_headersSent st
         \<and> status_valid (num_or (err_statusCode err) (num_or (err_status err) 500))"
proof (cases "res_headersSent st")
  case True
  then show ?thesis
    by (simp add: errorHandler_throws_sent responses_def last_response_def)
next
  case False
  show ?thesis
  proof (cases "status_valid (num_or (err_statusCode err) (num_or (err_status err) 500))")
    case True
    with False show ?thesis
      by (simp add: errorHandler_def send_json_def now_iso_def responses_def last_response_def
          Let_def split del: if_split)
  next
    case invalid: False
    with False show ?thesis
      by (simp add: errorHandler_throws_invalid responses_def last_response_def)
  qed
qed

text \<open>
  The status handed over is the one resolved before the overrides by name: an
  override rewrites \<open>error.code\<close> in the body and leaves the status as it was.
\<close>

lemma errorHandler_status_line:
  assumes "\<not> res_headersSent st"
    and "status_valid (num_or (err_statusCode err) (num_or (err_status err) 500))"
  shows "\<exists>r. last_response (errorHandler err req st) = Some r
     \<and> http_status r = num_or (err_statusCode err) (num_or (err_status err) 500)"
  using assms by (simp add: run_defs Let_def)

lemma errorHandler_validation_body:
  assumes "\<not> res_headersSent st"
    and "status_valid (num_or (err_statusCode err) (num_or (err_status err) 500))"
    and "err_name err = Some ''ValidationError''"
  shows "\<exists>r. last_response (errorHandler err req st) = Some r
     \<and> error_code r = JNum 400
     \<and> error_message r = JStr (''Datos de entrada inv'' @ a_acute @ ''lidos'')
     \<and> error_details r = js_or (err_details err) (JArr [])"
  using assms by (simp add: run_defs Let_def)

lemma errorHandler_expired_body:
  assumes "\<not> res_headersSent st"
    and "status_valid (num_or (err_statusCode err) (num_or (err_status err) 500))"
    and "err_name err = Some ''TokenExpiredError''"
  shows "\<exists>r. last_response (errorHandler err req st) = Some r
     \<and> error_code r = JNum 401 \<and> error_message r = JStr ''Token expirado''"
  using assms by (simp add: run_defs Let_def)

lemma name_cases:
  obtains (validation) "err_name err = Some ''ValidationError''"
    | (cast) "err_name err = Some ''CastError''"
    | (jwt) "err_name err = Some ''JsonWebTokenError''"
    | (expired) "err_name err = Some ''TokenExpiredError''"
    | (other) "err_name err \<notin> Some ` set recognized_names"
  by (auto simp add: recognized_names_def)



lemma errorHandler_stack_key:
  assumes "\<not> res_headersSent st"
    and "status_valid (num_or (err_statusCode err) (num_or (err_status err) 500))"
  shows "\<exists>r kvs. last_response (errorHandler err req st) = Some r
      \<and> envelope_error r = JObj kvs
      \<and> map_of kvs ''stack''
          = (if process_env st ''NODE_ENV'' = Some ''development''
             then Some (of_str (err_stack err)) else None)"
proof (cases err rule: name_cases)
  case validation
  with assms show ?thesis by (simp add: run_defs Let_def)
next
  case cast
  with assms show ?thesis by (simp add: run_defs Let_def)
next
  case jwt
  with assms show ?thesis by (simp add: run_defs Let_def)
next
  case expired
  with assms show ?thesis by (simp add: run_defs Let_def)
next
  case other
  then have "err_name err \<noteq> Some ''ValidationError''" "err_name err \<noteq> Some ''CastError''"
    "err_name err \<noteq> Some ''JsonWebTokenError''" "err_name err \<noteq> Some ''TokenExpiredError''"
    by (auto simp add: recognized_names_def)
  with assms show ?thesis by (simp add: run_defs Let_def)
qed

text \<open>A body that reaches the client is the JSON value that was handed over.\<close>

lemma wire_body_handed_over: "wire_body (transmitted req r) = Some b \<Longrightarrow> b = json_body r"
  by (simp add: transmitted_def Let_def split: if_splits)

section \<open>Facts about the configuration and the handlers\<close>

lemmas number_defs =
  Number_is_NaN_def trim_def trim_start_def trim_end_def js_spaces_def decimal_literal_def unsigned_decimal_literal_def
  non_decimal_integer_literal_def is_decimal_digit_def digits_among_def exponent_part_opt_def

lemma str_or_nonempty: "d \<noteq> [] \<Longrightarrow> str_or v d \<noteq> []"
  by (simp add: str_or_def split: option.splits)

lemma truthy_str_iff: "truthy_str v \<longleftrightarrow> v \<noteq> None \<and> v \<noteq> Some []"
  by (simp add: truthy_str_def split: option.splits)

lemma validateEnv_fails_iff:
  "isl (validateEnv env) \<longleftrightarrow> (\<exists>v \<in> set requiredVars. \<not> truthy_str (env v))"
  by (simp add: validateEnv_def Let_def filter_empty_conv)

lemma replied_ok:
  "run_outcome (replied calls c b) = Responded r
     \<Longrightarrow> (\<exists>s. map_of b ''success'' = Some (JBool s))
     \<Longrightarrow> map_of b ''data'' = None \<or> map_of b ''error'' = None
     \<Longrightarrow> envelope_ok (json_body r)"
  by (auto simp add: replied_def envelope_ok_def get_field_JObj has_key_JObj)

lemma caught_ok:
  "run_outcome (caught label calls error) = Responded r \<Longrightarrow> envelope_ok (json_body r)"
  by (auto simp add: caught_def envelope_ok_def get_field_JObj has_key_JObj split: sum.splits)

lemma getAllItemsHandler_ok:
  "run_outcome (getAllItemsHandler svc req) = Responded r \<Longrightarrow> envelope_ok (json_body r)"
  by (auto simp add: getAllItemsHandler_def Let_def split: sum.splits
      dest: caught_ok elim!: replied_ok)

lemma getItemByIdHandler_ok:
  "run_outcome (getItemByIdHandler svc req) = Responded r \<Longrightarrow> envelope_ok (json_body r)"
  by (auto simp add: getItemByIdHandler_def Let_def split: sum.splits if_splits
      dest: caught_ok elim!: replied_ok)

lemma createItemHandler_ok:
  "run_outcome (createItemHandler vr svc req) = Responded r \<Longrightarrow> envelope_ok (json_body r)"
  by (auto simp add: createItemHandler_def Let_def split: sum.splits if_splits
      dest: caught_ok elim!: replied_ok)

lemma updateItemHandler_ok:
  "run_outcome (updateItemHandler vr svc req) = Responded r \<Longrightarrow> envelope_ok (json_body r)"
  by (auto simp add: updateItemHandler_def Let_def split: sum.splits if_splits
      dest: caught_ok elim!: replied_ok)

lemma deleteItemHandler_ok:
  "run_outcome (deleteItemHandler svc req) = Responded r \<Longrightarrow> envelope_ok (json_body r)"
  by (auto simp add: deleteItemHandler_def Let_def split: sum.splits if_splits
      dest: caught_ok elim!: replied_ok)

lemma validateRequest_ok:
  "run_outcome (validateRequest vr req) = Responded r \<Longrightarrow> envelope_ok (json_body r)"
  by (auto simp add: validateRequest_def Let_def split: sum.splits if_splits
      elim!: replied_ok)

lemma errorHandler_ok:
  assumes "last_response (errorHandler err req st) = Some r"
  shows "envelope_ok (json_body r)"
proof -
  from assms have "\<not> res_headersSent st"
    and "status_valid (num_or (err_statusCode err) (num_or (err_status err) 500))"
    using errorHandler_writes_iff [of err req st] by blast+
  with assms show ?thesis
    by (auto simp add: errorHandler_def send_json_def now_iso_def responses_def
        last_response_def envelope_ok_def get_field_JObj has_key_JObj Let_def
        split del: if_split)
qed

lemma globalErrorHandler_ok:
  assumes "\<not> res_headersSent st" and "last_response (globalErrorHandler thr req st) = Some r"
  shows "envelope_ok (json_body r)"
  using assms by (auto simp add: globalErrorHandler_def split: thrown.splits dest: errorHandler_ok)

lemma enveloped_body_ok: "enveloped_body b \<Longrightarrow> envelope_ok b"
  by (induction rule: enveloped_body.induct)
     (blast dest: wire_body_handed_over getAllItemsHandler_ok getItemByIdHandler_ok
        createItemHandler_ok updateItemHandler_ok deleteItemHandler_ok validateRequest_ok
        errorHandler_ok globalErrorHandler_ok)+

lemma bare_body_keys:
  "bare_body b \<Longrightarrow> \<not> has_key ''success'' b \<and> \<not> has_key ''data'' b"
  by (induction rule: bare_body.induct)
     (auto dest!: wire_body_handed_over
        simp add: server_health_route_def server_not_found_route_def router_root_def
          router_health_def router_error_def has_key_JObj)

text \<open>
  The guard of \<open>getItemByIdHandler\<close>: an identifier that is absent, empty or NaN under
  \<open>Number\<close> is answered 400 with no call of the data-access function; any other is
  passed to it, once.
\<close>

lemma getItemByIdHandler_guard:
  "(req_params_id req = None \<or> req_params_id req = Some [] \<or> isNaN (req_params_id req)
      \<longrightarrow> getItemByIdHandler svc req =
           \<lparr>run_calls = [], run_logged = [],
            run_outcome = Responded
              \<lparr>http_status = 400,
               json_body = JObj [(''success'', JBool False),
                                 (''message'', JStr ''Invalid ID parameter'')]\<rparr>\<rparr>)
   \<and> (\<not> (req_params_id req = None \<or> req_params_id req = Some [] \<or> isNaN (req_params_id req))
      \<longrightarrow> run_calls (getItemByIdHandler svc req) = [[of_str (req_params_id req)]])"
  by (auto simp add: getItemByIdHandler_def replied_def caught_def truthy_str_iff Let_def
      split: sum.splits)

lemma Number_is_NaN_examples:
  "Number_is_NaN ''abc''" "\<not> Number_is_NaN ''42''" "\<not> Number_is_NaN '' ''"
  "\<not> Number_is_NaN [CHR 0xC2, CHR 0xA0]" "\<not> Number_is_NaN ([CHR 0xEF, CHR 0xBB, CHR 0xBF] @ ''7 '')"
  by (simp_all add: number_defs)

section \<open>The claims\<close>

text \<open>
  C1. A validation error that reaches \<open>errorHandler\<close> is to be answered with status 400,
  the fixed validation message and its details. Evaluated on a \<open>ValidationError\<close>
  that carries no status: the envelope says 400 and carries the details, the status
  line sent is 500.
\<close>

theorem validation_error_sent_with_status_500:
  "map http_status
     (responses (errorHandler validation_error sample_req (state_in_mode ''production''))) = [500]
   \<and> map error_code
     (responses (errorHandler validation_error sample_req (state_in_mode ''production''))) = [JNum 400]
   \<and> map error_message
     (responses (errorHandler validation_error sample_req (state_in_mode ''production'')))
       = [JStr (''Datos de entrada inv'' @ a_acute @ ''lidos'')]
   \<and> map error_details
     (responses (errorHandler validation_error sample_req (state_in_mode ''production'')))
       = [err_details validation_error]"
  by (simp add: run_defs sample_defs num_or_def str_or_def js_or_def status_valid_500 Let_def)

text \<open>
  C2. An expired-token error is to be answered with status 401 and the fixed
  expired-token message. Evaluated on a \<open>TokenExpiredError\<close> that carries no status:
  the envelope says 401 with the fixed message, the status line sent is 500.
\<close>

theorem expired_token_sent_with_status_500:
  "map http_status
     (responses (errorHandler expired_token_error sample_req (state_in_mode ''production''))) = [500]
   \<and> map error_code
     (responses (errorHandler expired_token_error sample_req (state_in_mode ''production''))) = [JNum 401]
   \<and> map error_message
     (responses (errorHandler expired_token_error sample_req (state_in_mode ''production'')))
       = [JStr ''Token expirado'']"
  by (simp add: run_defs sample_defs num_or_def str_or_def js_or_def status_valid_500 Let_def)

text \<open>
  C3, as stated: the table maps 500 to "Internal Server Error" and a code outside it
  to "Unknown Error". The table of the source holds other texts.
\<close>

theorem default_message_is_not_the_english_text:
  "map error_message
     (responses (errorHandler bare_error sample_req (state_in_mode ''production'')))
       = [JStr ''Error interno del servidor'']
   \<and> getErrorMessage 500 \<noteq> ''Internal Server Error''
   \<and> getErrorMessage 418 \<noteq> ''Unknown Error''"
  by (simp add: run_defs sample_defs num_or_def str_or_def status_valid_500 Let_def
      getErrorMessage_def)

text \<open>
  C3, amended. An error with no \<open>statusCode\<close>, no \<open>status\<close> and no recognized
  name is answered, on a response not yet sent, with status 500 and code 500; when it
  has neither a message nor a status message, the envelope's message is the table's
  entry for 500, which is \<open>Error interno del servidor\<close>; a code outside the table
  maps to \<open>Error desconocido\<close>.
\<close>

theorem default_status_and_message:
  assumes "\<not> res_headersSent st"
    and "err_statusCode err = None" and "err_status err = None"
    and "err_name err \<notin> Some ` set recognized_names"
  shows "\<exists>r. last_response (errorHandler err req st) = Some r
      \<and> http_status r = 500 \<and> error_code r = JNum 500
      \<and> (\<not> truthy_str (err_message err) \<and> \<not> truthy_str (err_statusMessage err)
           \<longrightarrow> error_message r = JStr (getErrorMessage 500))
      \<and> getErrorMessage 500 = ''Error interno del servidor''
      \<and> (\<forall>n. n \<notin> {400, 401, 403, 404, 409, 422, 500, 503}
             \<longrightarrow> getErrorMessage n = ''Error desconocido'')"
proof -
  have names: "err_name err \<noteq> Some ''ValidationError''" "err_name err \<noteq> Some ''CastError''"
    "err_name err \<noteq> Some ''JsonWebTokenError''" "err_name err \<noteq> Some ''TokenExpiredError''"
    using assms(4) by (auto simp: recognized_names_def)
  have table: "getErrorMessage 500 = ''Error interno del servidor''"
    by (rule getErrorMessage_500)
  have "\<exists>r. last_response (errorHandler err req st) = Some r
      \<and> http_status r = 500 \<and> error_code r = JNum 500
      \<and> (\<not> truthy_str (err_message err) \<and> \<not> truthy_str (err_statusMessage err)
           \<longrightarrow> error_message r = JStr ''Error interno del servidor'')"
    using assms(1-3) names
    by (auto simp add: run_defs num_or_def str_or_def truthy_str_def status_valid_500 Let_def
        table split: option.splits)
  with table getErrorMessage_unknown show ?thesis by auto
qed

theorem default_status_and_message_witness:
  "\<exists>r. last_response (errorHandler bare_error sample_req (state_in_mode ''production'')) = Some r
      \<and> http_status r = 500 \<and> error_message r = JStr ''Error interno del servidor''"
proof -
  have "\<not> res_headersSent (state_in_mode ''production'')"
    and "err_statusCode bare_error = None" and "err_status bare_error = None"
    and "err_name bare_error \<notin> Some ` set recognized_names"
    and "\<not> truthy_str (err_message bare_error)"
    and "\<not> truthy_str (err_statusMessage bare_error)"
    by (simp_all add: sample_defs recognized_names_def truthy_str_def)
  with default_status_and_message [of "state_in_mode ''production''" bare_error sample_req]
  show ?thesis by auto
qed


text \<open>
  C4, as stated: in every mode other than production the stack is in the envelope when
  the error has one. In mode \<open>test\<close> it is not.
\<close>

theorem stack_absent_in_test_mode:
  "process_env (state_in_mode ''test'') ''NODE_ENV'' = Some ''test''
   \<and> err_stack traced_error = Some ''Error: boom at handler (app.js:1:1)''
   \<and> map (\<lambda>r. has_key ''stack'' (envelope_error r))
        (responses (errorHandler traced_error sample_req (state_in_mode ''test''))) = [False]"
  by (simp add: run_defs sample_defs num_or_def str_or_def status_valid_500 Let_def)

text \<open>
  C4, amended. \<open>errorHandler\<close> writes an envelope exactly when the headers are not
  yet sent and the resolved status is one the transport accepts. In every envelope it
  writes, the \<open>error\<close> object has a \<open>stack\<close> property exactly when \<open>NODE_ENV\<close> is
  \<open>development\<close>, and its value is then \<open>err.stack\<close>; a body that reaches the client
  shows a stack exactly when \<open>NODE_ENV\<close> is \<open>development\<close> and the error has one. In
  every other mode, production among them, there is no such property.
\<close>

theorem stack_only_in_development:
  "((\<exists>r. last_response (errorHandler err req st) = Some r)
      \<longleftrightarrow> \<not> res_headersSent st
          \<and> status_valid (num_or (err_statusCode err) (num_or (err_status err) 500)))
   \<and> (\<forall>r. last_response (errorHandler err req st) = Some r \<longrightarrow>
        (has_key ''stack'' (envelope_error r)
           \<longleftrightarrow> process_env st ''NODE_ENV'' = Some ''development'')
        \<and> (process_env st ''NODE_ENV'' = Some ''development''
           \<longrightarrow> get_field ''stack'' (envelope_error r) = of_str (err_stack err))
        \<and> (\<forall>b. wire_body (transmitted req r) = Some b \<longrightarrow>
             (on_wire ''stack'' (get_field ''error'' b)
                \<longleftrightarrow> process_env st ''NODE_ENV'' = Some ''development''
                    \<and> err_stack err \<noteq> None)))"
proof (intro conjI allI impI)
  show "(\<exists>r. last_response (errorHandler err req st) = Some r)
      \<longleftrightarrow> \<not> res_headersSent st
          \<and> status_valid (num_or (err_statusCode err) (num_or (err_status err) 500))"
    by (rule errorHandler_writes_iff)
next
  fix r
  assume written: "last_response (errorHandler err req st) = Some r"
  then have "\<not> res_headersSent st"
    and "status_valid (num_or (err_statusCode err) (num_or (err_status err) 500))"
    using errorHandler_writes_iff [of err req st] by blast+
  from errorHandler_stack_key [OF this, of req] written
  obtain kvs where obj: "envelope_error r = JObj kvs"
    and key: "map_of kvs ''stack''
          = (if process_env st ''NODE_ENV'' = Some ''development''
             then Some (of_str (err_stack err)) else None)"
    by auto
  show "has_key ''stack'' (envelope_error r)
      \<longleftrightarrow> process_env st ''NODE_ENV'' = Some ''development''"
    using obj key by (simp add: has_key_JObj)
  show "get_field ''stack'' (envelope_error r) = of_str (err_stack err)"
    if "process_env st ''NODE_ENV'' = Some ''development''"
    using obj key that by (simp add: get_field_JObj)
  show "on_wire ''stack'' (get_field ''error'' b)
      \<longleftrightarrow> process_env st ''NODE_ENV'' = Some ''development'' \<and> err_stack err \<noteq> None"
    if "wire_body (transmitted req r) = Some b" for b
  proof -
    from that have "b = json_body r"
      by (rule wire_body_handed_over)
    then have "get_field ''error'' b = JObj kvs"
      using obj by (simp add: envelope_error_def)
    then show ?thesis
      using key
      by (auto simp add: on_wire_def has_key_JObj get_field_JObj of_str_def split: option.splits)
  qed
qed

theorem stack_only_in_development_witness:
  "(\<exists>r. last_response (errorHandler traced_error sample_req (state_in_mode ''development'')) = Some r
      \<and> wire_body (transmitted sample_req r) = Some (json_body r)
      \<and> on_wire ''stack'' (get_field ''error'' (json_body r))
      \<and> get_field ''stack'' (envelope_error r) = JStr ''Error: boom at handler (app.js:1:1)'')
   \<and> (\<exists>r. last_response (errorHandler traced_error sample_req (state_in_mode ''production'')) = Some r
      \<and> \<not> has_key ''stack'' (envelope_error r))"
proof -
  have valid: "status_valid (num_or (err_statusCode traced_error) (num_or (err_status traced_error) 500))"
    by (simp add: traced_error_def num_or_def status_valid_500)
  have fresh: "\<not> res_headersSent (state_in_mode ''development'')"
    "\<not> res_headersSent (state_in_mode ''production'')"
    by (simp_all add: state_in_mode_def)
  have dev: "process_env (state_in_mode ''development'') ''NODE_ENV'' = Some ''development''"
    and prod: "process_env (state_in_mode ''production'') ''NODE_ENV'' \<noteq> Some ''development''"
    and tr: "err_stack traced_error = Some ''Error: boom at handler (app.js:1:1)''"
    by (simp_all add: state_in_mode_def traced_error_def)
  from errorHandler_status_line [OF fresh(1) valid, of sample_req]
  obtain r where r: "last_response (errorHandler traced_error sample_req (state_in_mode ''development'')) = Some r"
    and status: "http_status r = 500"
    by (auto simp add: traced_error_def num_or_def)
  have wire: "wire_body (transmitted sample_req r) = Some (json_body r)"
    using status by (simp add: transmitted_def sample_req_def to_int32_def Let_def)
  from stack_only_in_development [of traced_error sample_req "state_in_mode ''development''"]
    r wire dev tr
  have first: "on_wire ''stack'' (get_field ''error'' (json_body r))
      \<and> get_field ''stack'' (envelope_error r) = JStr ''Error: boom at handler (app.js:1:1)''"
    by (auto simp add: of_str_def)
  from stack_only_in_development [of traced_error sample_req "state_in_mode ''production''"]
    fresh(2) valid prod
  have second: "\<exists>r. last_response (errorHandler traced_error sample_req (state_in_mode ''production'')) = Some r
      \<and> \<not> has_key ''stack'' (envelope_error r)"
    by auto
  from r wire first second show ?thesis by blast
qed

text \<open>
  C5. When the headers of the response are already sent, \<open>globalErrorHandler\<close> writes
  nothing: it passes the error to \<open>next\<close> and leaves the response, the console and
  the rest of the state as they were.
\<close>

theorem globalErrorHandler_forwards_when_sent:
  assumes "res_headersSent st"
  shows "globalErrorHandler err req st = Inr (st\<lparr>res_forwarded := res_forwarded st @ [err]\<rparr>)
     \<and> responses (globalErrorHandler err req st) = res_sent st"
  using assms by (simp add: globalErrorHandler_def responses_def)

theorem globalErrorHandler_forwards_when_sent_witness:
  "res_headersSent answered_state
   \<and> responses (globalErrorHandler (ErrorInst traced_error) sample_req answered_state)
       = [\<lparr>http_status = 200, json_body = JObj [(''success'', JBool True)]\<rparr>]
   \<and> globalErrorHandler (ErrorInst traced_error) sample_req answered_state
       = Inr (answered_state\<lparr>res_forwarded := [ErrorInst traced_error]\<rparr>)"
proof -
  have sent: "res_headersSent answered_state"
    by (simp add: answered_state_def)
  have was: "res_sent answered_state
      = [\<lparr>http_status = 200, json_body = JObj [(''success'', JBool True)]\<rparr>]"
    and fwd: "res_forwarded answered_state = []"
    by (simp_all add: answered_state_def state_in_mode_def)
  from globalErrorHandler_forwards_when_sent [OF sent, of "ErrorInst traced_error" sample_req]
  show ?thesis using sent was fwd by (simp add: responses_def)
qed



text \<open>
  C7, as stated: every response of the program has a boolean \<open>success\<close>. The health
  route of the server answers with a body that has no \<open>success\<close> at all.
\<close>

theorem health_route_has_no_success:
  "program_body
     (JObj [(''status'', JStr ''OK''), (''timestamp'', JStr ''2024-01-01T00:00:00.000Z''),
            (''uptime'', JNum 42)])
   \<and> wire_body (transmitted sample_req (server_health_route ''2024-01-01T00:00:00.000Z'' 42))
       = Some (JObj [(''status'', JStr ''OK''), (''timestamp'', JStr ''2024-01-01T00:00:00.000Z''),
                     (''uptime'', JNum 42)])
   \<and> \<not> has_key ''success''
       (JObj [(''status'', JStr ''OK''), (''timestamp'', JStr ''2024-01-01T00:00:00.000Z''),
              (''uptime'', JNum 42)])
   \<and> \<not> envelope_ok
       (JObj [(''status'', JStr ''OK''), (''timestamp'', JStr ''2024-01-01T00:00:00.000Z''),
              (''uptime'', JNum 42)])"
proof -
  have wire: "wire_body (transmitted sample_req (server_health_route ''2024-01-01T00:00:00.000Z'' 42))
       = Some (JObj [(''status'', JStr ''OK''), (''timestamp'', JStr ''2024-01-01T00:00:00.000Z''),
                     (''uptime'', JNum 42)])"
    by (simp add: transmitted_def server_health_route_def sample_req_def to_int32_def Let_def)
  then have "bare_body
     (JObj [(''status'', JStr ''OK''), (''timestamp'', JStr ''2024-01-01T00:00:00.000Z''),
            (''uptime'', JNum 42)])"
    by (rule from_server_health)
  then show ?thesis
    using wire by (simp add: program_body_def envelope_ok_def has_key_JObj get_field_JObj)
qed

text \<open>
  C7, amended. No body the program sends has both \<open>data\<close> and \<open>error\<close>. Every body
  sent by the five handlers of the item controller, by the validation middleware and
  by the two error handlers has a boolean \<open>success\<close>; the bodies of the health route,
  of the handler for unmatched routes and of the routes of routes/index.js have no
  \<open>success\<close> property.
\<close>

theorem controller_and_error_responses_enveloped:
  "(program_body b \<longrightarrow> \<not> (has_key ''data'' b \<and> has_key ''error'' b))
   \<and> (enveloped_body b \<longrightarrow> envelope_ok b)
   \<and> (bare_body b \<longrightarrow> \<not> has_key ''success'' b)"
proof -
  have "\<not> (has_key ''data'' b \<and> has_key ''error'' b)" if "program_body b"
    using that enveloped_body_ok [of b] bare_body_keys [of b]
    by (auto simp add: program_body_def envelope_ok_def)
  then show ?thesis
    using enveloped_body_ok bare_body_keys by blast
qed

theorem controller_and_error_responses_enveloped_witness:
  "enveloped_body
     (JObj [(''success'', JBool False), (''message'', JStr ''Invalid ID parameter'')])
   \<and> envelope_ok
     (JObj [(''success'', JBool False), (''message'', JStr ''Invalid ID parameter'')])
   \<and> bare_body
     (JObj [(''error'', JStr ''Error de prueba''),
            (''message'', JStr ''Error de prueba intencional'')])
   \<and> \<not> has_key ''success''
     (JObj [(''error'', JStr ''Error de prueba''),
            (''message'', JStr ''Error de prueba intencional'')])
   \<and> \<not> (has_key ''data''
          (JObj [(''error'', JStr ''Error de prueba''),
                 (''message'', JStr ''Error de prueba intencional'')])
        \<and> has_key ''error''
          (JObj [(''error'', JStr ''Error de prueba''),
                 (''message'', JStr ''Error de prueba intencional'')]))"
proof -
  have "run_outcome (getItemByIdHandler found_item (sample_req\<lparr>req_params_id := None\<rparr>))
      = Responded \<lparr>http_status = 400,
          json_body = JObj [(''success'', JBool False), (''message'', JStr ''Invalid ID parameter'')]\<rparr>"
    by (simp add: getItemByIdHandler_def replied_def truthy_str_def Let_def)
  moreover have "wire_body (transmitted (sample_req\<lparr>req_params_id := None\<rparr>)
       \<lparr>http_status = 400,
        json_body = JObj [(''success'', JBool False), (''message'', JStr ''Invalid ID parameter'')]\<rparr>)
      = Some (JObj [(''success'', JBool False), (''message'', JStr ''Invalid ID parameter'')])"
    by (simp add: transmitted_def sample_req_def to_int32_def Let_def)
  ultimately have env: "enveloped_body
     (JObj [(''success'', JBool False), (''message'', JStr ''Invalid ID parameter'')])"
    by (rule from_getItemById)
  have "wire_body (transmitted sample_req router_error)
      = Some (JObj [(''error'', JStr ''Error de prueba''),
                    (''message'', JStr ''Error de prueba intencional'')])"
    by (simp add: transmitted_def router_error_def new_Error_def of_str_def sample_req_def
        to_int32_def Let_def)
  then have bare: "bare_body
     (JObj [(''error'', JStr ''Error de prueba''),
            (''message'', JStr ''Error de prueba intencional'')])"
    by (rule from_router_error)
  from controller_and_error_responses_enveloped
         [of "JObj [(''success'', JBool False), (''message'', JStr ''Invalid ID parameter'')]"]
       controller_and_error_responses_enveloped
         [of "JObj [(''error'', JStr ''Error de prueba''),
                    (''message'', JStr ''Error de prueba intencional'')]"]
  show ?thesis using env bare by (simp add: program_body_def)
qed

text \<open>
  C8, as stated: loading the configuration fails only if one of the four variables is
  missing or empty. With all four set it still fails when the upload directory can be
  neither reached nor created.
\<close>

theorem getConfig_fails_with_all_variables_set:
  "map full_env [''NODE_ENV'', ''PORT'', ''DATABASE_URL'', ''JWT_SECRET'']
     = [Some ''production'', Some ''8080'', Some ''mongodb://db/app'', Some ''s3cret'']
   \<and> validateEnv full_env = Inr ()
   \<and> cfg_result (getConfig readonly_fs full_env)
     = Inl (ErrorInst (new_Error ''Failed to load application configuration''))"
  by (simp add: full_env_def readonly_fs_def getConfig_def validateEnv_def requiredVars_def
      truthy_str_def str_or_def Let_def)

text \<open>
  C8, amended. \<open>validateEnv\<close> throws exactly when one of \<open>NODE_ENV\<close>, \<open>PORT\<close>,
  \<open>DATABASE_URL\<close>, \<open>JWT_SECRET\<close> is missing or empty. \<open>getConfig\<close> fails exactly
  when one of them is missing or empty, or the upload directory (\<open>UPLOAD_PATH\<close>, by
  default \<open>./uploads\<close>) can be neither reached nor created; its error is then the fixed
  one.
\<close>

theorem config_failure_characterised:
  "(isl (validateEnv env)
      \<longleftrightarrow> (\<exists>v \<in> set [''NODE_ENV'', ''PORT'', ''DATABASE_URL'', ''JWT_SECRET''].
             env v = None \<or> env v = Some []))
   \<and> (isl (cfg_result (getConfig fs env))
      \<longleftrightarrow> (\<exists>v \<in> set [''NODE_ENV'', ''PORT'', ''DATABASE_URL'', ''JWT_SECRET''].
             env v = None \<or> env v = Some [])
          \<or> (\<not> fs_access fs (str_or (env ''UPLOAD_PATH'') ''./uploads'')
              \<and> \<not> fs_mkdir fs (str_or (env ''UPLOAD_PATH'') ''./uploads'')))
   \<and> (isl (cfg_result (getConfig fs env))
      \<longrightarrow> cfg_result (getConfig fs env)
          = Inl (ErrorInst (new_Error ''Failed to load application configuration'')))"
proof -
  let ?missing = "\<exists>v \<in> set [''NODE_ENV'', ''PORT'', ''DATABASE_URL'', ''JWT_SECRET''].
             env v = None \<or> env v = Some []"
  have env: "isl (validateEnv env) \<longleftrightarrow> ?missing"
    unfolding validateEnv_fails_iff requiredVars_def truthy_str_iff by auto
  have path: "str_or (env ''UPLOAD_PATH'') ''./uploads'' \<noteq> []"
    by (rule str_or_nonempty) simp
  show ?thesis
  proof (cases "validateEnv env")
    case (Inl e)
    then have "isl (validateEnv env)" by simp
    with env Inl show ?thesis by (simp add: getConfig_def Let_def)
  next
    case (Inr u)
    then have "\<not> isl (validateEnv env)" by simp
    with env Inr path show ?thesis by (simp add: getConfig_def Let_def)
  qed
qed

theorem config_failure_characterised_witness:
  "isl (validateEnv [''NODE_ENV'' \<mapsto> ''production'', ''PORT'' \<mapsto> ''''])
   \<and> cfg_result (getConfig readonly_fs [''NODE_ENV'' \<mapsto> ''production'', ''PORT'' \<mapsto> ''''])
       = Inl (ErrorInst (new_Error ''Failed to load application configuration''))
   \<and> \<not> isl (validateEnv full_env)
   \<and> \<not> isl (cfg_result (getConfig (readonly_fs\<lparr>fs_mkdir := (\<lambda>p. True)\<rparr>) full_env))"
  using config_failure_characterised [of "[''NODE_ENV'' \<mapsto> ''production'', ''PORT'' \<mapsto> '''']" readonly_fs]
    config_failure_characterised [of full_env "readonly_fs\<lparr>fs_mkdir := (\<lambda>p. True)\<rparr>"]
  by (simp add: full_env_def readonly_fs_def)

text \<open>
  C9. An identifier that is not numeric is to be answered 400 with \<open>success\<close> false
  and the message \<open>Invalid ID parameter\<close>, with no call of the data-access
  function. Evaluated on a blank identifier (\<open>GET /api/items/%20\<close>): it is not
  numeric, yet \<open>isNaN\<close> takes it for the number 0, so the function is called with it
  and the answer is what the function finds.
\<close>

theorem blank_id_reaches_the_service:
  "\<not> numeric_id '' ''
   \<and> run_calls (getItemByIdHandler found_item (sample_req\<lparr>req_params_id := Some '' ''\<rparr>))
       = [[JStr '' '']]
   \<and> run_outcome (getItemByIdHandler found_item (sample_req\<lparr>req_params_id := Some '' ''\<rparr>))
       = Responded
           \<lparr>http_status = 200,
            json_body = JObj [(''success'', JBool True),
                              (''data'', JObj [(''id'', JNum 7), (''name'', JStr ''lamp'')]),
                              (''message'', JStr ''Item retrieved successfully'')]\<rparr>"
  by (simp add: getItemByIdHandler_def replied_def found_item_def sample_req_def numeric_id_def
      truthy_str_def isNaN_def of_str_def number_defs Let_def)

theorem blank_id_reaches_the_service_witness:
  "length (run_calls (getItemByIdHandler found_item (sample_req\<lparr>req_params_id := Some '' ''\<rparr>)))
     = 1"
  using blank_id_reaches_the_service by simp




end
